theory Spec2Isabelle
  imports Complex_Main "HOL-Library.Sublist"
begin

section \<open>Shared data: faces, rounding and number formatting\<close>

text \<open>
  Every component declares the same interface
  \<^verbatim>\<open>interface Face { topLeft: [number, number]; bottomRight: [number, number]; probability: number }\<close>.
  JavaScript numbers are modelled as exact reals: the clock, the coordinates and the
  probabilities are compared and added without rounding error.
\<close>

record Face =
  topLeft :: "real \<times> real"
  bottomRight :: "real \<times> real"
  probability :: real

text \<open>\<^verbatim>\<open>Math.round\<close> rounds to the nearest integer, a half towards plus infinity.\<close>

definition Math_round :: "real \<Rightarrow> int" where
  "Math_round x = \<lfloor>x + 1 / 2\<rfloor>"

text \<open>
  A template literal \<^verbatim>\<open>${n}\<close> prints an integer-valued number in decimal, with a
  minus sign when it is negative.
\<close>

definition digit_char :: "nat \<Rightarrow> char" where
  "digit_char d = ''0123456789'' ! d"

fun nat_toString :: "nat \<Rightarrow> string" where
  "nat_toString n =
     (if 10 \<le> n then nat_toString (n div 10) @ [digit_char (n mod 10)]
      else [digit_char n])"

declare nat_toString.simps [simp del]

definition int_toString :: "int \<Rightarrow> string" where
  "int_toString i =
     (if 0 \<le> i then nat_toString (nat i) else CHR ''-'' # nat_toString (nat (- i)))"

text \<open>
  \<^verbatim>\<open>faces.reduce((sum, face) => sum + face.probability, 0)\<close>, the sum both
  \<^verbatim>\<open>VoiceDescription\<close> and \<^verbatim>\<open>StatsPanel\<close> average.
\<close>

definition sum_probability :: "Face list \<Rightarrow> real" where
  "sum_probability faces = foldl (\<lambda>sum face. sum + probability face) 0 faces"

section \<open>VoiceDescription.tsx: the narration trigger\<close>

subsection \<open>The speech output collaborator\<close>

record Voice =
  voiceName :: string
  voiceDefault :: bool

record Utterance =
  utterText :: string
  rate :: real
  pitch :: real
  volume :: real
  voice :: "Voice option"

text \<open>
  \<^verbatim>\<open>window.speechSynthesis\<close>: the voices it offers, the utterances handed to it that
  are still queued or playing, and every \<^verbatim>\<open>speak\<close> call it has received, oldest first.
\<close>

record SpeechSynthesis =
  getVoices :: "Voice list"
  queued :: "Utterance list"
  speakCalls :: "Utterance list"

definition synth_cancel :: "SpeechSynthesis \<Rightarrow> SpeechSynthesis" where
  "synth_cancel y = y\<lparr>queued := []\<rparr>"

definition synth_speak :: "Utterance \<Rightarrow> SpeechSynthesis \<Rightarrow> SpeechSynthesis" where
  "synth_speak u y = y\<lparr>queued := queued y @ [u], speakCalls := speakCalls y @ [u]\<rparr>"

subsection \<open>Component state\<close>

text \<open>
  The four \<^verbatim>\<open>useState\<close> cells of the component (lines 21-24) and the speech
  synthesizer it talks to. The props \<^verbatim>\<open>faces\<close> and \<^verbatim>\<open>enabled\<close> are arguments
  of the operations that read them.
\<close>

record VoiceState =
  isSpeaking :: bool
  lastFaceCount :: nat
  speechSupported :: bool
  currentDescription :: string
  synth :: SpeechSynthesis

definition voice_init :: "Voice list \<Rightarrow> VoiceState" where
  "voice_init vs =
     \<lparr>isSpeaking = False, lastFaceCount = 0, speechSupported = False,
      currentDescription = [],
      synth = \<lparr>getVoices = vs, queued = [], speakCalls = []\<rparr>\<rparr>"

text \<open>Lines 26-28: \<^verbatim>\<open>setSpeechSupported('speechSynthesis' in window)\<close>.\<close>

definition detectSupport :: "bool \<Rightarrow> VoiceState \<Rightarrow> VoiceState" where
  "detectSupport inWindow s = s\<lparr>speechSupported := inWindow\<rparr>"

subsection \<open>speakDescription (lines 30-49)\<close>

definition preferredVoice :: "Voice \<Rightarrow> bool" where
  "preferredVoice v \<longleftrightarrow>
     sublist ''Google'' (voiceName v) \<or> sublist ''Neural'' (voiceName v) \<or> voiceDefault v"

definition newUtterance :: "string \<Rightarrow> Voice list \<Rightarrow> Utterance" where
  "newUtterance txt vs =
     \<lparr>utterText = txt, rate = 85 / 100, pitch = 11 / 10, volume = 8 / 10,
      voice = find preferredVoice vs\<rparr>"

definition speakDescription :: "bool \<Rightarrow> string \<Rightarrow> VoiceState \<Rightarrow> VoiceState" where
  "speakDescription enabled txt s =
     (if \<not> enabled \<or> \<not> speechSupported s then s
      else
        let y = synth_cancel (synth s);
            utterance = newUtterance txt (getVoices y)
        in s\<lparr>currentDescription := txt, synth := synth_speak utterance y\<rparr>)"

text \<open>The three callbacks installed on every utterance (lines 43-45).\<close>

definition utterance_onstart :: "VoiceState \<Rightarrow> VoiceState" where
  "utterance_onstart s = s\<lparr>isSpeaking := True\<rparr>"

definition utterance_onend :: "VoiceState \<Rightarrow> VoiceState" where
  "utterance_onend s = s\<lparr>isSpeaking := False\<rparr>"

definition utterance_onerror :: "VoiceState \<Rightarrow> VoiceState" where
  "utterance_onerror s = s\<lparr>isSpeaking := False\<rparr>"

subsection \<open>getPositionDescription (lines 75-96)\<close>

definition getPositionDescription :: "Face \<Rightarrow> string" where
  "getPositionDescription face =
     (let (x1, y1) = topLeft face;
          (x2, y2) = bottomRight face;
          centerX = (x1 + x2) / 2;
          centerY = (y1 + y2) / 2;
          width = (640 :: real);
          height = (480 :: real);
          horizontal =
            (if centerX < width * (33 / 100) then ''left''
             else if centerX > width * (67 / 100) then ''right''
             else ''center'');
          vertical =
            (if centerY < height * (33 / 100) then ''upper''
             else if centerY > height * (67 / 100) then ''lower''
             else ''middle'')
      in vertical @ '' '' @ horizontal)"

subsection \<open>The announcement effect (lines 51-73)\<close>

definition noFacesMessage :: string where
  "noFacesMessage =
     ''No faces currently detected in the camera view. '' @
     ''Please position yourself in front of the camera for face detection.''"

text \<open>
  Lines 57-68: the description composed for a batch. The middle branch reads
  \<^verbatim>\<open>faces[0]\<close>, which exists there because the batch has exactly one face.
\<close>

fun composeDescription :: "Face list \<Rightarrow> string" where
  "composeDescription [] = noFacesMessage"
| "composeDescription [face] =
     (let confidence = Math_round (probability face * 100);
          position = getPositionDescription face
      in ''One face detected with '' @ int_toString confidence @
         ''% confidence, positioned in the '' @ position @ '' of the frame.'')"
| "composeDescription faces =
     (let avgConfidence =
            Math_round (sum_probability faces / real (length faces) * 100)
      in nat_toString (length faces) @
         '' faces detected with an average confidence of '' @
         int_toString avgConfidence @ ''%.'')"

text \<open>
  The text the effect passes to \<^verbatim>\<open>speakDescription\<close> for the current props and
  state, or \<open>None\<close> when it makes no such call (line 52 and line 56).
\<close>

definition narration :: "Face list \<Rightarrow> bool \<Rightarrow> VoiceState \<Rightarrow> string option" where
  "narration faces enabled s =
     (if \<not> enabled then None
      else
        let currentFaceCount = length faces
        in if \<bar>int currentFaceCount - int (lastFaceCount s)\<bar> \<ge> 1
           then Some (composeDescription faces)
           else None)"

definition announceEffect :: "Face list \<Rightarrow> bool \<Rightarrow> VoiceState \<Rightarrow> VoiceState" where
  "announceEffect faces enabled s =
     (case narration faces enabled s of
        None \<Rightarrow> s
      | Some description \<Rightarrow>
          (speakDescription enabled description s)\<lparr>lastFaceCount := length faces\<rparr>)"

subsection \<open>The manual description and the stop button (lines 98-140)\<close>

definition qualityPhrase :: "int \<Rightarrow> string" where
  "qualityPhrase confidence =
     (if confidence \<ge> 95 then ''Excellent detection quality. ''
      else if confidence \<ge> 80 then ''Good detection quality. ''
      else ''Fair detection quality - consider improving lighting or positioning. '')"

definition describeFace :: "nat \<Rightarrow> Face \<Rightarrow> string" where
  "describeFace index face =
     (let confidence = Math_round (probability face * 100);
          position = getPositionDescription face;
          (x1, y1) = topLeft face;
          (x2, y2) = bottomRight face;
          width = Math_round (x2 - x1);
          height = Math_round (y2 - y1)
      in ''Face '' @ nat_toString (index + 1) @ '' is positioned in the '' @ position @
         '' area of the frame with '' @ int_toString confidence @
         ''% confidence. The face bounding box measures '' @ int_toString width @
         '' by '' @ int_toString height @ '' pixels. '' @ qualityPhrase confidence)"

fun describeFaces :: "nat \<Rightarrow> Face list \<Rightarrow> string" where
  "describeFaces index [] = []"
| "describeFaces index (face # rest) = describeFace index face @ describeFaces (index + 1) rest"

definition getDetailedDescription :: "Face list \<Rightarrow> string" where
  "getDetailedDescription faces =
     (if length faces = 0 then
        ''No faces currently detected. Please position yourself in front of the camera '' @
        ''for optimal face detection. Ensure good lighting and that your face is clearly visible.''
      else
        let avgConfidence =
              Math_round (sum_probability faces / real (length faces) * 100)
        in ''Currently detecting '' @ nat_toString (length faces) @ '' face'' @
           (if length faces \<noteq> 1 then ''s'' else '''') @ '' in the camera view. '' @
           describeFaces 0 faces @
           ''Overall detection performance: '' @ int_toString avgConfidence @
           ''% average confidence.'')"

definition speakDetailedDescription :: "Face list \<Rightarrow> bool \<Rightarrow> VoiceState \<Rightarrow> VoiceState" where
  "speakDetailedDescription faces enabled s =
     speakDescription enabled (getDetailedDescription faces) s"

definition stopSpeaking :: "VoiceState \<Rightarrow> VoiceState" where
  "stopSpeaking s =
     (if speechSupported s then s\<lparr>synth := synth_cancel (synth s), isSpeaking := False\<rparr>
      else s)"

subsection \<open>Everything that can happen to the component\<close>

text \<open>
  The operations of the component, as events: its two effects, the callbacks of an
  utterance it dispatched, and the two buttons. The effect and the buttons run with the
  props of the render they belong to. The events are not restricted to the states in
  which the browser can raise them (the stop button is shown while \<^verbatim>\<open>isSpeaking\<close>
  holds), so what holds for every event holds for those it can raise.
\<close>

datatype VoiceEvent =
    SupportDetected bool
  | BatchArrived "Face list" bool
  | UtteranceStarted
  | UtteranceEnded
  | UtteranceFailed
  | DescribeClicked "Face list" bool
  | StopClicked

fun voice_step :: "VoiceEvent \<Rightarrow> VoiceState \<Rightarrow> VoiceState" where
  "voice_step (SupportDetected inWindow) s = detectSupport inWindow s"
| "voice_step (BatchArrived faces enabled) s = announceEffect faces enabled s"
| "voice_step UtteranceStarted s = utterance_onstart s"
| "voice_step UtteranceEnded s = utterance_onend s"
| "voice_step UtteranceFailed s = utterance_onerror s"
| "voice_step (DescribeClicked faces enabled) s = speakDetailedDescription faces enabled s"
| "voice_step StopClicked s = stopSpeaking s"

section \<open>The overlay renderer\<close>

subsection \<open>The 2D drawing surface\<close>

text \<open>
  A colour string such as \<^verbatim>\<open>`hsl(${hue}, 70%, 60%)`\<close> keeps its numbers apart, so that
  the hue a detection is drawn with can be read back. A style is a colour or a linear
  gradient with its colour stops.
\<close>

datatype Color =
    Hsl nat nat nat
  | Hsla nat nat nat real
  | Css string

datatype Style =
    Solid Color
  | LinearGradient real real real real "(real \<times> Color) list"

text \<open>The calls made on the \<^verbatim>\<open>CanvasRenderingContext2D\<close>, in the order they are made.\<close>

datatype Cmd =
    SetStrokeStyle Style
  | SetFillStyle Style
  | SetLineWidth real
  | SetLineDash "real list"
  | SetShadowColor Color
  | SetShadowBlur real
  | SetFont string
  | StrokeRect real real real real
  | FillRect real real real real
  | BeginPath
  | MoveTo real real
  | LineTo real real
  | Stroke
  | FillText string real real

text \<open>
  The overlay canvas: its size and what has been drawn on it since it was last cleared.
  \<^verbatim>\<open>ctx.clearRect(0, 0, canvas.width, canvas.height)\<close> clears all of it, and so does
  assigning \<^verbatim>\<open>canvas.width\<close> or \<^verbatim>\<open>canvas.height\<close>.
\<close>

record Canvas =
  canvasWidth :: nat
  canvasHeight :: nat
  contents :: "Cmd list"

definition newCanvas :: Canvas where
  "newCanvas = \<lparr>canvasWidth = 300, canvasHeight = 150, contents = []\<rparr>"

definition clearRect_all :: "Canvas \<Rightarrow> Canvas" where
  "clearRect_all c = c\<lparr>contents := []\<rparr>"

definition resizeCanvas :: "nat \<Rightarrow> nat \<Rightarrow> Canvas \<Rightarrow> Canvas" where
  "resizeCanvas w h c = \<lparr>canvasWidth = w, canvasHeight = h, contents = []\<rparr>"

definition draw :: "Cmd list \<Rightarrow> Canvas \<Rightarrow> Canvas" where
  "draw cmds c = c\<lparr>contents := contents c @ cmds\<rparr>"

text \<open>\<^verbatim>\<open>faces.forEach((face, index) => ...)\<close>: the body runs on each face with its index.\<close>

fun forEachFace :: "(nat \<Rightarrow> Face \<Rightarrow> Cmd list) \<Rightarrow> nat \<Rightarrow> Face list \<Rightarrow> Cmd list" where
  "forEachFace body index [] = []"
| "forEachFace body index (face # rest) = body index face @ forEachFace body (index + 1) rest"

text \<open>Line 138 of WebcamCapture.tsx and line 73 of ImageUpload.tsx.\<close>

definition faceHue :: "nat \<Rightarrow> nat" where
  "faceHue index = 120 + index * 60"

text \<open>The bullet U+2022 of the live label, as its three UTF-8 bytes.\<close>

definition bullet :: string where
  "bullet = [CHR 0xE2, CHR 0x80, CHR 0xA2]"

subsection \<open>The live-stream variant (WebcamCapture.tsx, lines 132-187)\<close>

definition drawFace_live :: "nat \<Rightarrow> Face \<Rightarrow> Cmd list" where
  "drawFace_live index face =
     (let (x1, y1) = topLeft face;
          (x2, y2) = bottomRight face;
          width = x2 - x1;
          height = y2 - y1;
          hue = faceHue index;
          cornerSize = 20;
          labelWidth = 180;
          labelHeight = 30;
          labelY = (if y1 > labelHeight + 10 then y1 - labelHeight - 5 else y2 + 10)
      in [SetStrokeStyle (Solid (Hsl hue 70 60)),
          SetLineWidth 3,
          SetLineDash [],
          StrokeRect x1 y1 width height,
          SetStrokeStyle (Solid (Hsl hue 70 70)),
          SetLineWidth 3,
          BeginPath, MoveTo x1 (y1 + cornerSize), LineTo x1 y1, LineTo (x1 + cornerSize) y1, Stroke,
          BeginPath, MoveTo (x2 - cornerSize) y1, LineTo x2 y1, LineTo x2 (y1 + cornerSize), Stroke,
          BeginPath, MoveTo x1 (y2 - cornerSize), LineTo x1 y2, LineTo (x1 + cornerSize) y2, Stroke,
          BeginPath, MoveTo (x2 - cornerSize) y2, LineTo x2 y2, LineTo x2 (y2 - cornerSize), Stroke,
          SetFillStyle (Solid (Hsla hue 70 20 (9 / 10))),
          FillRect x1 labelY labelWidth labelHeight,
          SetStrokeStyle (Solid (Hsl hue 70 60)),
          SetLineWidth 2,
          StrokeRect x1 labelY labelWidth labelHeight,
          SetFillStyle (Solid (Css ''white'')),
          SetFont ''bold 14px Inter, sans-serif'',
          FillText
            (''Face '' @ nat_toString (index + 1) @ '' '' @ bullet @ '' '' @
             int_toString (Math_round (probability face * 100)) @ ''%'')
            (x1 + 8) (labelY + 20)])"

definition overlay_live :: "Face list \<Rightarrow> Cmd list" where
  "overlay_live faces = forEachFace drawFace_live 0 faces"

subsection \<open>The still-image variant (ImageUpload.tsx, lines 67-145)\<close>





subsection \<open>Reading a drawing back\<close>

text \<open>
  The hues a command draws with, and whether a command writes a label \<^verbatim>\<open>Face n\<close>.
  The canvas reads the first number of an \<^verbatim>\<open>hsl()\<close> or \<^verbatim>\<open>hsla()\<close> colour as an
  angle in degrees, so the hue it draws with is that number modulo 360:
  \<^verbatim>\<open>hsl(360, 70%, 60%)\<close> and \<^verbatim>\<open>hsl(0, 70%, 60%)\<close> are one colour.
\<close>

fun color_hues :: "Color \<Rightarrow> nat list" where
  "color_hues (Hsl h s l) = [h mod 360]"
| "color_hues (Hsla h s l a) = [h mod 360]"
| "color_hues (Css name) = []"

fun style_hues :: "Style \<Rightarrow> nat list" where
  "style_hues (Solid c) = color_hues c"
| "style_hues (LinearGradient x0 y0 x1 y1 stops) = concat (map (\<lambda>stop. color_hues (snd stop)) stops)"

fun cmd_hues :: "Cmd \<Rightarrow> nat list" where
  "cmd_hues (SetStrokeStyle st) = style_hues st"
| "cmd_hues (SetFillStyle st) = style_hues st"
| "cmd_hues (SetShadowColor c) = color_hues c"
| "cmd_hues other = []"

definition hues :: "Cmd list \<Rightarrow> nat list" where
  "hues cmds = concat (map cmd_hues cmds)"

fun isLabelDraw :: "Cmd \<Rightarrow> bool" where
  "isLabelDraw (FillText txt x y) = prefix ''Face '' txt"
| "isLabelDraw other = False"

definition labelDraws :: "Cmd list \<Rightarrow> Cmd list" where
  "labelDraws cmds = filter isLabelDraw cmds"

section \<open>WebcamCapture.tsx: the frame scheduler\<close>

subsection \<open>The detector\<close>

text \<open>
  One entry of what \<^verbatim>\<open>model.estimateFaces(video, false)\<close> resolves to. The
  probability is the first entry of the array the detector attaches, or absent.
\<close>

record Prediction =
  predTopLeft :: "real \<times> real"
  predBottomRight :: "real \<times> real"
  predProbability :: "real option"

text \<open>Lines 121-125 (and 55-59 of ImageUpload.tsx).\<close>

definition toFace :: "Prediction \<Rightarrow> Face" where
  "toFace prediction =
     \<lparr>topLeft = predTopLeft prediction,
      bottomRight = predBottomRight prediction,
      probability = (case predProbability prediction of Some p \<Rightarrow> p | None \<Rightarrow> 9 / 10)\<rparr>"

subsection \<open>Component state\<close>

text \<open>
  The \<^verbatim>\<open>useState\<close> cells and \<^verbatim>\<open>useRef\<close> cells of lines 23-35, the overlay canvas,
  and the component's surroundings: the stream attached to the video element, the
  animation frames the browser has scheduled and not yet run or cancelled (handles are
  positive, so a stored handle is truthy), the number of \<^verbatim>\<open>estimateFaces\<close> calls that
  have not settled, the clock reading at every \<^verbatim>\<open>estimateFaces\<close> call and the batches
  passed to the \<^verbatim>\<open>onFaceDetected\<close> prop, both newest first.
\<close>

record Webcam =
  model :: bool
  isLoading :: bool
  error :: "string option"
  isStreaming :: bool
  isRecording :: bool
  faceCount :: nat
  fps :: int
  animationFrameRef :: "nat option"
  fpsCounterRef :: nat
  lastTimeRef :: real
  lastDetectionTime :: real
  canvas :: Canvas
  srcObject :: bool
  scheduledFrames :: "nat list"
  nextFrameHandle :: nat
  inFlight :: nat
  estimateCalls :: "real list"
  onFaceDetectedCalls :: "Face list list"

definition webcam_init :: Webcam where
  "webcam_init =
     \<lparr>model = False, isLoading = True, error = None, isStreaming = False,
      isRecording = False, faceCount = 0, fps = 0, animationFrameRef = None,
      fpsCounterRef = 0, lastTimeRef = 0, lastDetectionTime = 0, canvas = newCanvas,
      srcObject = False, scheduledFrames = [], nextFrameHandle = 1, inFlight = 0,
      estimateCalls = [], onFaceDetectedCalls = []\<rparr>"

text \<open>
  \<^verbatim>\<open>animationFrameRef.current = requestAnimationFrame(detectFaces)\<close> and
  \<^verbatim>\<open>cancelAnimationFrame(handle)\<close>.
\<close>

definition requestAnimationFrame :: "Webcam \<Rightarrow> Webcam" where
  "requestAnimationFrame s =
     s\<lparr>animationFrameRef := Some (nextFrameHandle s),
       scheduledFrames := scheduledFrames s @ [nextFrameHandle s],
       nextFrameHandle := nextFrameHandle s + 1\<rparr>"

definition cancelAnimationFrame :: "nat \<Rightarrow> Webcam \<Rightarrow> Webcam" where
  "cancelAnimationFrame handle s = s\<lparr>scheduledFrames := removeAll handle (scheduledFrames s)\<rparr>"

definition cancelStoredFrame :: "Webcam \<Rightarrow> Webcam" where
  "cancelStoredFrame s =
     (case animationFrameRef s of None \<Rightarrow> s | Some handle \<Rightarrow> cancelAnimationFrame handle s)"

subsection \<open>loadModel, startWebcam and stopWebcam (lines 37-81)\<close>

definition loadModel_done :: "bool \<Rightarrow> Webcam \<Rightarrow> Webcam" where
  "loadModel_done loaded s =
     (if loaded then s\<lparr>model := True, isLoading := False\<rparr>
      else s\<lparr>error := Some ''Failed to load face detection model'', isLoading := False\<rparr>)"

text \<open>
  \<^verbatim>\<open>startWebcam\<close> once \<^verbatim>\<open>getUserMedia\<close> has settled: with a stream or with a
  rejection. The video element exists only while neither the loading screen nor an error
  is shown (line 320).
\<close>

definition startWebcam_done :: "bool \<Rightarrow> Webcam \<Rightarrow> Webcam" where
  "startWebcam_done granted s =
     (if granted then
        (if \<not> isLoading s \<and> error s = None
         then s\<lparr>srcObject := True, isStreaming := True, error := None\<rparr>
         else s)
      else s\<lparr>error := Some ''Failed to access webcam. Please check permissions.''\<rparr>)"

definition stopWebcam :: "Webcam \<Rightarrow> Webcam" where
  "stopWebcam s =
     cancelStoredFrame
       (if srcObject s
        then s\<lparr>srcObject := False, isStreaming := False, isRecording := False\<rparr>
        else s)"

text \<open>The effect of lines 199-213: its cleanup, then its body.\<close>

definition loopEffect :: "Webcam \<Rightarrow> Webcam" where
  "loopEffect s =
     (let s1 = cancelStoredFrame s
      in if isStreaming s1 \<and> model s1 then requestAnimationFrame s1
         else cancelStoredFrame s1)"

subsection \<open>detectFaces (lines 83-193)\<close>

text \<open>
  What one run of the animation-frame callback sees: the clock, the \<^verbatim>\<open>model\<close> and
  \<^verbatim>\<open>isStreaming\<close> its closure captured (a callback scheduled by an earlier render keeps
  that render's values), whether the video and canvas elements and the 2D context exist,
  and the state of the video.
\<close>

record Tick =
  now :: real
  closureModel :: bool
  closureStreaming :: bool
  videoMounted :: bool
  canvasMounted :: bool
  context2d :: bool
  videoWidth :: nat
  videoHeight :: nat
  readyState :: nat

text \<open>Line 120: the call of the detector, which makes the callback wait.\<close>

definition estimateFaces_call :: "real \<Rightarrow> Webcam \<Rightarrow> Webcam" where
  "estimateFaces_call t s = s\<lparr>inFlight := inFlight s + 1, estimateCalls := t # estimateCalls s\<rparr>"

text \<open>
  Lines 104-112: the frame-rate estimate. Both timestamps are written together on every
  accepted tick, so \<open>delta\<close> is at least 67 wherever the gate has let the tick through.
\<close>

definition updateFps :: "real \<Rightarrow> Webcam \<Rightarrow> Webcam" where
  "updateFps t s =
     (let s1 =
        (if lastTimeRef s > 0 then
           let delta = t - lastTimeRef s;
               s2 = s\<lparr>fpsCounterRef := fpsCounterRef s + 1\<rparr>
           in if fpsCounterRef s2 mod 15 = 0 then s2\<lparr>fps := Math_round (1000 / delta)\<rparr> else s2
         else s)
      in s1\<lparr>lastTimeRef := t\<rparr>)"

text \<open>Lines 114-117.\<close>

definition fitCanvas :: "Tick \<Rightarrow> Webcam \<Rightarrow> Webcam" where
  "fitCanvas tick s =
     (if canvasWidth (canvas s) \<noteq> videoWidth tick \<or> canvasHeight (canvas s) \<noteq> videoHeight tick
      then s\<lparr>canvas := resizeCanvas (videoWidth tick) (videoHeight tick) (canvas s)\<rparr>
      else s)"

text \<open>Lines 84-120: the callback up to the point where it awaits the detector.\<close>

definition detectFaces :: "Tick \<Rightarrow> Webcam \<Rightarrow> Webcam" where
  "detectFaces tick s =
     (if \<not> closureModel tick \<or> \<not> videoMounted tick \<or> \<not> canvasMounted tick \<or>
         \<not> closureStreaming tick
      then s
      else if \<not> context2d tick \<or> videoWidth tick = 0 \<or> readyState tick \<noteq> 4
      then requestAnimationFrame s
      else if now tick - lastDetectionTime s < 67
      then requestAnimationFrame s
      else
        estimateFaces_call (now tick)
          (fitCanvas tick (updateFps (now tick) (s\<lparr>lastDetectionTime := now tick\<rparr>))))"

text \<open>
  Lines 121-192: the rest of the callback, run when the detector settles with a rejection
  (\<open>Inl\<close>, which is logged) or with its predictions (\<open>Inr\<close>).
\<close>

definition detectFaces_settled :: "string + Prediction list \<Rightarrow> Webcam \<Rightarrow> Webcam" where
  "detectFaces_settled result s =
     requestAnimationFrame
       (case result of
          Inl err \<Rightarrow> s
        | Inr predictions \<Rightarrow>
            let faces = map toFace predictions
            in s\<lparr>faceCount := length faces,
                 onFaceDetectedCalls := faces # onFaceDetectedCalls s,
                 canvas := draw (overlay_live faces) (clearRect_all (canvas s))\<rparr>)"

subsection \<open>Everything that can happen to the component\<close>

text \<open>
  The browser runs a scheduled animation frame at most once, and only while it has not
  been cancelled; a detector call settles only while one is in flight.
\<close>

datatype CamEvent =
    ModelSettled bool
  | CameraSettled bool
  | StopClicked_cam
  | RecordingToggled
  | EffectRan
  | AnimationFrame nat Tick
  | DetectorSettled "string + Prediction list"

fun cam_step :: "CamEvent \<Rightarrow> Webcam \<Rightarrow> Webcam" where
  "cam_step (ModelSettled loaded) s = loadModel_done loaded s"
| "cam_step (CameraSettled granted) s = startWebcam_done granted s"
| "cam_step StopClicked_cam s = stopWebcam s"
| "cam_step RecordingToggled s = s\<lparr>isRecording := \<not> isRecording s\<rparr>"
| "cam_step EffectRan s = loopEffect s"
| "cam_step (AnimationFrame handle tick) s =
     (if handle \<in> set (scheduledFrames s)
      then detectFaces tick (s\<lparr>scheduledFrames := removeAll handle (scheduledFrames s)\<rparr>)
      else s)"
| "cam_step (DetectorSettled result) s =
     (if inFlight s = 0 then s
      else detectFaces_settled result (s\<lparr>inFlight := inFlight s - 1\<rparr>))"

fun cam_run :: "CamEvent list \<Rightarrow> Webcam \<Rightarrow> Webcam" where
  "cam_run [] s = s"
| "cam_run (e # es) s = cam_run es (cam_step e s)"

section \<open>ImageUpload.tsx: detection on a still image\<close>

record ImageUpload =
  isProcessing :: bool
  detectedFaces :: "Face list"
  analysisComplete :: bool
  imageCanvas :: Canvas
  imageBatches :: "Face list list"

text \<open>
  Lines 39-54: \<^verbatim>\<open>detectFacesInImage\<close> up to the detector call. The arguments say
  whether the model, the image and canvas elements and the 2D context exist, and give the
  natural size of the image. The result says whether the detector was called.
\<close>

definition detectFacesInImage :: "bool \<Rightarrow> bool \<Rightarrow> bool \<Rightarrow> nat \<Rightarrow> nat \<Rightarrow> ImageUpload \<Rightarrow> bool \<times> ImageUpload" where
  "detectFacesInImage hasModel mounted hasCtx naturalWidth naturalHeight u =
     (if \<not> hasModel \<or> \<not> mounted then (False, u)
      else if \<not> hasCtx then (False, u\<lparr>isProcessing := False\<rparr>)
      else (True, u\<lparr>isProcessing := True,
                     imageCanvas := resizeCanvas naturalWidth naturalHeight (imageCanvas u)\<rparr>))"


section \<open>App: session statistics\<close>

text \<open>
  The cells of \<^verbatim>\<open>App\<close> that the statistics panel shows (lines 19-24), the interval
  callback of lines 61-63 and the two handlers of lines 68-77.
\<close>

record App =
  appFaces :: "Face list"
  voiceEnabled :: bool
  detectionCount :: nat
  sessionTime :: nat

definition app_init :: App where
  "app_init = \<lparr>appFaces = [], voiceEnabled = True, detectionCount = 0, sessionTime = 0\<rparr>"

definition intervalTick :: "App \<Rightarrow> App" where
  "intervalTick a = a\<lparr>sessionTime := sessionTime a + 1\<rparr>"

definition handleFaceDetected :: "Face list \<Rightarrow> App \<Rightarrow> App" where
  "handleFaceDetected batch a =
     (let a1 = a\<lparr>appFaces := batch\<rparr>
      in if length batch > 0 then a1\<lparr>detectionCount := detectionCount a1 + 1\<rparr> else a1)"

definition handleVoiceToggle :: "bool \<Rightarrow> App \<Rightarrow> App" where
  "handleVoiceToggle enabled a = a\<lparr>voiceEnabled := enabled\<rparr>"

text \<open>
  The application with its webcam component: the one-second interval fires, the voice
  button is pressed, or something happens to the webcam component, whose
  \<^verbatim>\<open>onFaceDetected\<close> prop is \<^verbatim>\<open>handleFaceDetected\<close>.
\<close>

record Session =
  app :: App
  cam :: Webcam

definition session_init :: Session where
  "session_init = \<lparr>app = app_init, cam = webcam_init\<rparr>"

datatype SessionEvent =
    IntervalFired
  | VoiceToggled bool
  | Cam CamEvent

fun session_step :: "SessionEvent \<Rightarrow> Session \<Rightarrow> Session" where
  "session_step IntervalFired x = x\<lparr>app := intervalTick (app x)\<rparr>"
| "session_step (VoiceToggled enabled) x = x\<lparr>app := handleVoiceToggle enabled (app x)\<rparr>"
| "session_step (Cam e) x =
     (let c = cam_step e (cam x)
      in x\<lparr>cam := c,
           app := (if length (onFaceDetectedCalls c) > length (onFaceDetectedCalls (cam x))
                   then handleFaceDetected (hd (onFaceDetectedCalls c)) (app x)
                   else app x)\<rparr>)"

fun session_run :: "SessionEvent list \<Rightarrow> Session \<Rightarrow> Session" where
  "session_run [] x = x"
| "session_run (e # es) x = session_run es (session_step e x)"

section \<open>Notions the properties are stated with\<close>

text \<open>
  A display tick the scheduler turns away: the 2D context or the frame is not ready, or
  less than 67 ms have passed since the last accepted detection.
\<close>

definition rejectedTick :: "Webcam \<Rightarrow> CamEvent \<Rightarrow> bool" where
  "rejectedTick s e =
     (case e of
        AnimationFrame handle tick \<Rightarrow>
          \<not> context2d tick \<or> videoWidth tick = 0 \<or> readyState tick \<noteq> 4 \<or>
          now tick - lastDetectionTime s < 67
      | _ \<Rightarrow> False)"

text \<open>
  The invariant behind the throttle: the detector calls made so far are pairwise at least
  67 ms apart, and none is later than the last accepted detection.
\<close>

definition throttle_inv :: "Webcam \<Rightarrow> bool" where
  "throttle_inv s \<longleftrightarrow>
     sorted_wrt (\<lambda>later earlier. later - earlier \<ge> 67) (estimateCalls s) \<and>
     (\<forall>c \<in> set (estimateCalls s). c \<le> lastDetectionTime s)"

text \<open>
  Sample inputs: a frame callback at clock reading \<open>t\<close> that finds the model, the
  stream, both elements, the context and a ready 640 by 480 video; the detection of the
  specification's scenario, as a prediction and as a face; and a component that runs,
  with the first frame callback (handle 1) scheduled.
\<close>

definition readyTick :: "real \<Rightarrow> Tick" where
  "readyTick t =
     \<lparr>now = t, closureModel = True, closureStreaming = True, videoMounted = True,
      canvasMounted = True, context2d = True, videoWidth = 640, videoHeight = 480,
      readyState = 4\<rparr>"

definition scenarioPrediction :: Prediction where
  "scenarioPrediction =
     \<lparr>predTopLeft = (10, 10), predBottomRight = (60, 80), predProbability = Some (95 / 100)\<rparr>"

definition scenarioFace :: Face where
  "scenarioFace = \<lparr>topLeft = (10, 10), bottomRight = (60, 80), probability = 95 / 100\<rparr>"

definition streaming :: Webcam where
  "streaming = cam_run [ModelSettled True, CameraSettled True, EffectRan] webcam_init"

text \<open>The same component after its first detection cycle, accepted at 100 ms and completed.\<close>

definition afterFirstCycle :: Webcam where
  "afterFirstCycle =
     cam_run [AnimationFrame 1 (readyTick 100), DetectorSettled (Inr [scenarioPrediction])]
       streaming"

section \<open>Properties of the narration trigger\<close>

lemmas voice_defs =
  voice_init_def detectSupport_def speakDescription_def utterance_onstart_def
  utterance_onend_def utterance_onerror_def narration_def announceEffect_def
  speakDetailedDescription_def stopSpeaking_def synth_cancel_def synth_speak_def
  newUtterance_def

lemma speakDescription_isSpeaking:
  "isSpeaking (speakDescription enabled txt s) = isSpeaking s"
  by (simp add: speakDescription_def Let_def)

lemma announceEffect_isSpeaking:
  "isSpeaking (announceEffect faces enabled s) = isSpeaking s"
  by (simp add: announceEffect_def speakDescription_isSpeaking split: option.splits)

lemma speakDescription_lastFaceCount:
  "lastFaceCount (speakDescription enabled txt s) = lastFaceCount s"
  by (simp add: speakDescription_def Let_def)

text \<open>
  C4, as the code has it. \<^verbatim>\<open>isSpeaking\<close> goes from true to false through the
  \<^verbatim>\<open>onend\<close> and \<^verbatim>\<open>onerror\<close> callbacks of an utterance, and also synchronously
  through the stop button: \<^verbatim>\<open>stopSpeaking\<close> clears it whenever speech synthesis is
  supported. No other operation of the component (the two effects, \<^verbatim>\<open>onstart\<close>, the
  describe button) clears it.
\<close>

theorem isSpeaking_cleared_only_by_callbacks_or_stop:
  "(isSpeaking s \<and> \<not> isSpeaking (voice_step e s) \<longrightarrow>
      e = UtteranceEnded \<or> e = UtteranceFailed \<or> e = StopClicked) \<and>
   \<not> isSpeaking (voice_step UtteranceEnded s) \<and>
   \<not> isSpeaking (voice_step UtteranceFailed s) \<and>
   (speechSupported s \<longrightarrow> \<not> isSpeaking (voice_step StopClicked s))"
  by (cases e)
     (simp_all add: detectSupport_def announceEffect_isSpeaking utterance_onstart_def
        utterance_onend_def utterance_onerror_def speakDetailedDescription_def
        speakDescription_isSpeaking stopSpeaking_def)

theorem isSpeaking_cleared_only_by_callbacks_or_stop_witness:
  "isSpeaking ((voice_init [])\<lparr>speechSupported := True, isSpeaking := True\<rparr>) \<and>
   \<not> isSpeaking
       (voice_step UtteranceEnded ((voice_init [])\<lparr>speechSupported := True, isSpeaking := True\<rparr>)) \<and>
   speechSupported ((voice_init [])\<lparr>speechSupported := True, isSpeaking := True\<rparr>) \<and>
   \<not> isSpeaking
       (voice_step StopClicked ((voice_init [])\<lparr>speechSupported := True, isSpeaking := True\<rparr>))"
proof -
  have "isSpeaking ((voice_init [])\<lparr>speechSupported := True, isSpeaking := True\<rparr>)"
    and "speechSupported ((voice_init [])\<lparr>speechSupported := True, isSpeaking := True\<rparr>)"
    by (simp_all add: voice_init_def)
  then show ?thesis
    using isSpeaking_cleared_only_by_callbacks_or_stop
      [of "(voice_init [])\<lparr>speechSupported := True, isSpeaking := True\<rparr>" UtteranceEnded]
    by blast
qed

text \<open>
  C4 as stated fails: with speech synthesis supported and an utterance playing, the stop
  button clears \<^verbatim>\<open>isSpeaking\<close> at once, and it is neither of the two callbacks.
\<close>

theorem stopSpeaking_clears_isSpeaking_synchronously:
  "isSpeaking ((voice_init [])\<lparr>speechSupported := True, isSpeaking := True\<rparr>) \<and>
   \<not> isSpeaking
       (voice_step StopClicked ((voice_init [])\<lparr>speechSupported := True, isSpeaking := True\<rparr>)) \<and>
   StopClicked \<noteq> UtteranceEnded \<and> StopClicked \<noteq> UtteranceFailed"
  by (simp add: voice_init_def stopSpeaking_def)

text \<open>
  C5, as the code has it. The announcement effect sets \<^verbatim>\<open>lastFaceCount\<close> to the
  batch's count whenever narration is enabled and the count differs from it, whether or
  not \<^verbatim>\<open>speakDescription\<close> handed an utterance to the speech output (it hands none when
  speech synthesis is unsupported); no other operation of the component changes it.
\<close>

theorem lastFaceCount_follows_every_changed_batch:
  "lastFaceCount (announceEffect faces enabled s) =
     (if enabled \<and> length faces \<noteq> lastFaceCount s then length faces else lastFaceCount s) \<and>
   (\<not> speechSupported s \<longrightarrow>
      speakCalls (synth (announceEffect faces enabled s)) = speakCalls (synth s)) \<and>
   ((\<forall>fs en. e \<noteq> BatchArrived fs en) \<longrightarrow> lastFaceCount (voice_step e s) = lastFaceCount s)"
proof (intro conjI impI)
  show "lastFaceCount (announceEffect faces enabled s) =
     (if enabled \<and> length faces \<noteq> lastFaceCount s then length faces else lastFaceCount s)"
    by (auto simp: announceEffect_def narration_def Let_def)
  show "speakCalls (synth (announceEffect faces enabled s)) = speakCalls (synth s)"
    if "\<not> speechSupported s"
    using that by (simp add: announceEffect_def speakDescription_def split: option.splits)
  show "lastFaceCount (voice_step e s) = lastFaceCount s" if "\<forall>fs en. e \<noteq> BatchArrived fs en"
    using that
    by (cases e)
       (auto simp: detectSupport_def utterance_onstart_def utterance_onend_def
          utterance_onerror_def speakDetailedDescription_def speakDescription_lastFaceCount
          stopSpeaking_def)
qed

theorem lastFaceCount_follows_every_changed_batch_witness:
  "\<not> speechSupported (voice_init []) \<and>
   lastFaceCount (announceEffect [scenarioFace] True (voice_init [])) = 1 \<and>
   speakCalls (synth (announceEffect [scenarioFace] True (voice_init []))) =
     speakCalls (synth (voice_init [])) \<and>
   lastFaceCount (voice_step StopClicked (voice_init [])) = lastFaceCount (voice_init [])"
proof -
  have "\<not> speechSupported (voice_init [])"
    and "lastFaceCount (voice_init []) = 0"
    and "\<forall>fs en. StopClicked \<noteq> BatchArrived fs en"
    by (simp_all add: voice_init_def)
  then show ?thesis
    using lastFaceCount_follows_every_changed_batch
      [of "[scenarioFace]" True "voice_init []" StopClicked]
    by simp
qed

text \<open>
  C5 as stated fails: while speech synthesis is unsupported (as on the first render) a
  batch of one face hands no utterance to the speech output, and \<^verbatim>\<open>lastFaceCount\<close>
  still changes from 0 to 1.
\<close>

theorem lastFaceCount_changes_without_dispatch:
  "\<not> speechSupported (voice_init []) \<and>
   speakCalls (synth (announceEffect [scenarioFace] True (voice_init []))) = [] \<and>
   lastFaceCount (voice_init []) = 0 \<and>
   lastFaceCount (announceEffect [scenarioFace] True (voice_init [])) = 1"
  by (simp add: voice_init_def announceEffect_def narration_def speakDescription_def)

text \<open>
  C6, as the code has it. With narration disabled the announcement effect does nothing.
  With narration enabled it calls \<^verbatim>\<open>speakDescription\<close>, with the description
  composed for the batch, exactly when the batch's count differs from
  \<^verbatim>\<open>lastFaceCount\<close> by at least 1; that call hands an utterance to the speech output
  only where \<^verbatim>\<open>speechSupported\<close> holds, so the effect speaks exactly when speech
  synthesis is supported and the counts differ. With \<^verbatim>\<open>lastFaceCount = 2\<close> a batch
  of two faces speaks nothing, and where speech synthesis is supported a batch of three
  faces or of one face does speak.
\<close>

theorem narration_is_delta_gated:
  "announceEffect faces False s = s \<and>
   narration faces False s = None \<and>
   (narration faces True s \<noteq> None \<longleftrightarrow> \<bar>int (length faces) - int (lastFaceCount s)\<bar> \<ge> 1) \<and>
   (narration faces True s \<noteq> None \<longrightarrow> narration faces True s = Some (composeDescription faces)) \<and>
   (speakCalls (synth (announceEffect faces True s)) \<noteq> speakCalls (synth s) \<longleftrightarrow>
      speechSupported s \<and> \<bar>int (length faces) - int (lastFaceCount s)\<bar> \<ge> 1) \<and>
   (speechSupported s \<and> \<bar>int (length faces) - int (lastFaceCount s)\<bar> \<ge> 1 \<longrightarrow>
      speakCalls (synth (announceEffect faces True s)) =
        speakCalls (synth s) @ [newUtterance (composeDescription faces) (getVoices (synth s))]) \<and>
   (lastFaceCount s = 2 \<longrightarrow>
      (length faces = 2 \<longrightarrow>
         narration faces True s = None \<and> announceEffect faces True s = s) \<and>
      (length faces = 3 \<or> length faces = 1 \<longrightarrow> narration faces True s \<noteq> None) \<and>
      (speechSupported s \<and> (length faces = 3 \<or> length faces = 1) \<longrightarrow>
         speakCalls (synth (announceEffect faces True s)) \<noteq> speakCalls (synth s)))"
proof -
  have off: "announceEffect faces False s = s" "narration faces False s = None"
    by (simp_all add: announceEffect_def narration_def)
  have call: "narration faces True s \<noteq> None \<longleftrightarrow>
      \<bar>int (length faces) - int (lastFaceCount s)\<bar> \<ge> 1"
    by (auto simp: narration_def Let_def)
  have what: "narration faces True s \<noteq> None \<longrightarrow>
      narration faces True s = Some (composeDescription faces)"
    by (simp add: narration_def Let_def)
  have spoken: "speechSupported s \<and> \<bar>int (length faces) - int (lastFaceCount s)\<bar> \<ge> 1 \<longrightarrow>
      speakCalls (synth (announceEffect faces True s)) =
        speakCalls (synth s) @ [newUtterance (composeDescription faces) (getVoices (synth s))]"
    by (simp add: announceEffect_def narration_def Let_def speakDescription_def
        synth_speak_def synth_cancel_def)
  have silent: "\<not> (speechSupported s \<and> \<bar>int (length faces) - int (lastFaceCount s)\<bar> \<ge> 1) \<longrightarrow>
      speakCalls (synth (announceEffect faces True s)) = speakCalls (synth s)"
    by (auto simp: announceEffect_def narration_def Let_def speakDescription_def)
  from spoken silent
  have speaks: "speakCalls (synth (announceEffect faces True s)) \<noteq> speakCalls (synth s) \<longleftrightarrow>
      speechSupported s \<and> \<bar>int (length faces) - int (lastFaceCount s)\<bar> \<ge> 1"
    by auto
  have two: "lastFaceCount s = 2 \<longrightarrow>
      (length faces = 2 \<longrightarrow>
         narration faces True s = None \<and> announceEffect faces True s = s) \<and>
      (length faces = 3 \<or> length faces = 1 \<longrightarrow> narration faces True s \<noteq> None) \<and>
      (speechSupported s \<and> (length faces = 3 \<or> length faces = 1) \<longrightarrow>
         speakCalls (synth (announceEffect faces True s)) \<noteq> speakCalls (synth s))"
    using speaks by (auto simp: announceEffect_def narration_def Let_def)
  from off call what speaks spoken two show ?thesis by blast
qed

theorem narration_is_delta_gated_witness:
  "speechSupported ((voice_init [])\<lparr>speechSupported := True, lastFaceCount := 2\<rparr>) \<and>
   lastFaceCount ((voice_init [])\<lparr>speechSupported := True, lastFaceCount := 2\<rparr>) = 2 \<and>
   narration [scenarioFace, scenarioFace] True
     ((voice_init [])\<lparr>speechSupported := True, lastFaceCount := 2\<rparr>) = None \<and>
   narration [scenarioFace, scenarioFace, scenarioFace] True
     ((voice_init [])\<lparr>speechSupported := True, lastFaceCount := 2\<rparr>) \<noteq> None \<and>
   narration [scenarioFace] True
     ((voice_init [])\<lparr>speechSupported := True, lastFaceCount := 2\<rparr>) \<noteq> None \<and>
   speakCalls (synth (announceEffect [scenarioFace, scenarioFace, scenarioFace] True
     ((voice_init [])\<lparr>speechSupported := True, lastFaceCount := 2\<rparr>))) \<noteq>
   speakCalls (synth ((voice_init [])\<lparr>speechSupported := True, lastFaceCount := 2\<rparr>)) \<and>
   speakCalls (synth (announceEffect [scenarioFace] True
     ((voice_init [])\<lparr>speechSupported := True, lastFaceCount := 2\<rparr>))) \<noteq>
   speakCalls (synth ((voice_init [])\<lparr>speechSupported := True, lastFaceCount := 2\<rparr>))"
proof -
  have "speechSupported ((voice_init [])\<lparr>speechSupported := True, lastFaceCount := 2\<rparr>)"
    and "lastFaceCount ((voice_init [])\<lparr>speechSupported := True, lastFaceCount := 2\<rparr>) = 2"
    by (simp_all add: voice_init_def)
  then show ?thesis
    using
      narration_is_delta_gated
        [of "[scenarioFace, scenarioFace]" "(voice_init [])\<lparr>speechSupported := True, lastFaceCount := 2\<rparr>"]
      narration_is_delta_gated
        [of "[scenarioFace, scenarioFace, scenarioFace]" "(voice_init [])\<lparr>speechSupported := True, lastFaceCount := 2\<rparr>"]
      narration_is_delta_gated
        [of "[scenarioFace]" "(voice_init [])\<lparr>speechSupported := True, lastFaceCount := 2\<rparr>"]
    by simp
qed

text \<open>
  C6 as stated fails while \<^verbatim>\<open>speechSupported\<close> is false, as it is at the first run of
  the effect after the component mounts: narration is enabled and the batch of one face
  differs from \<^verbatim>\<open>lastFaceCount = 0\<close> by 1, yet nothing is handed to the speech output.
  The same holds with \<^verbatim>\<open>lastFaceCount = 2\<close> and a batch of three faces.
\<close>

theorem changed_batch_is_silent_without_speech_support:
  "\<not> speechSupported (voice_init []) \<and>
   \<bar>int (length [scenarioFace]) - int (lastFaceCount (voice_init []))\<bar> \<ge> 1 \<and>
   speakCalls (synth (announceEffect [scenarioFace] True (voice_init []))) = [] \<and>
   queued (synth (announceEffect [scenarioFace] True (voice_init []))) = [] \<and>
   lastFaceCount ((voice_init [])\<lparr>lastFaceCount := 2\<rparr>) = 2 \<and>
   speakCalls (synth (announceEffect [scenarioFace, scenarioFace, scenarioFace] True
     ((voice_init [])\<lparr>lastFaceCount := 2\<rparr>))) = []"
  by (simp add: voice_init_def announceEffect_def narration_def speakDescription_def)

text \<open>
  C7. For the scenario's batch, one face of confidence 0.95 in the box (10,10)-(60,80),
  the narration is
  \<^verbatim>\<open>One face detected with 95% confidence, positioned in the upper left of the frame.\<close>
  The position of any face is read off the centre of its box against fixed bounds,
  33 and 67 percent of 640 and of 480; the size of the captured frame is no input.
\<close>

theorem single_face_scenario_narration:
  "composeDescription [scenarioFace] =
     ''One face detected with 95% confidence, positioned in the upper left of the frame.'' \<and>
   sublist ''One face detected with 95% confidence'' (composeDescription [scenarioFace]) \<and>
   sublist ''upper left'' (composeDescription [scenarioFace]) \<and>
   getPositionDescription scenarioFace = ''upper left'' \<and>
   map utterText (speakCalls (synth (announceEffect [scenarioFace] True (detectSupport True (voice_init []))))) =
     [''One face detected with 95% confidence, positioned in the upper left of the frame.''] \<and>
   getPositionDescription face =
     (if (snd (topLeft face) + snd (bottomRight face)) / 2 < 792 / 5 then ''upper''
      else if (snd (topLeft face) + snd (bottomRight face)) / 2 > 1608 / 5 then ''lower''
      else ''middle'') @ '' '' @
     (if (fst (topLeft face) + fst (bottomRight face)) / 2 < 1056 / 5 then ''left''
      else if (fst (topLeft face) + fst (bottomRight face)) / 2 > 2144 / 5 then ''right''
      else ''center'')"
proof -
  have text_eq: "composeDescription [scenarioFace] =
     ''One face detected with 95% confidence, positioned in the upper left of the frame.''"
    by (simp add: scenarioFace_def getPositionDescription_def Math_round_def int_toString_def
        nat_toString.simps digit_char_def)
  have s1: "sublist ''One face detected with 95% confidence''
      ''One face detected with 95% confidence, positioned in the upper left of the frame.''"
    by code_simp
  have s2: "sublist ''upper left''
      ''One face detected with 95% confidence, positioned in the upper left of the frame.''"
    by code_simp
  have pos: "getPositionDescription scenarioFace = ''upper left''"
    by (simp add: scenarioFace_def getPositionDescription_def)
  have spoken: "map utterText (speakCalls (synth (announceEffect [scenarioFace] True (detectSupport True (voice_init []))))) =
     [composeDescription [scenarioFace]]"
    by (simp add: voice_defs Let_def del: composeDescription.simps)
  have general: "getPositionDescription face =
     (if (snd (topLeft face) + snd (bottomRight face)) / 2 < 792 / 5 then ''upper''
      else if (snd (topLeft face) + snd (bottomRight face)) / 2 > 1608 / 5 then ''lower''
      else ''middle'') @ '' '' @
     (if (fst (topLeft face) + fst (bottomRight face)) / 2 < 1056 / 5 then ''left''
      else if (fst (topLeft face) + fst (bottomRight face)) / 2 > 2144 / 5 then ''right''
      else ''center'')"
    by (simp add: getPositionDescription_def Let_def split: prod.splits)
  from text_eq s1 s2 pos spoken general show ?thesis by (simp only: simp_thms)
qed

text \<open>
  C8. With \<^verbatim>\<open>lastFaceCount = 1\<close> and narration enabled, an empty batch makes the
  effect narrate the fixed message for no faces and sets \<^verbatim>\<open>lastFaceCount\<close> to 0; where
  speech synthesis is supported, that message is the one utterance then queued.
\<close>

theorem empty_batch_resets_count:
  "lastFaceCount s = 1 \<Longrightarrow>
     narration [] True s = Some noFacesMessage \<and>
     lastFaceCount (announceEffect [] True s) = 0 \<and>
     (speechSupported s \<longrightarrow>
        speakCalls (synth (announceEffect [] True s)) =
          speakCalls (synth s) @ [newUtterance noFacesMessage (getVoices (synth s))] \<and>
        queued (synth (announceEffect [] True s)) =
          [newUtterance noFacesMessage (getVoices (synth s))]) \<and>
     utterText (newUtterance noFacesMessage vs) =
       ''No faces currently detected in the camera view. Please position yourself in front of the camera for face detection.''"
  by (simp add: announceEffect_def narration_def Let_def speakDescription_def synth_speak_def
      synth_cancel_def noFacesMessage_def newUtterance_def)

theorem empty_batch_resets_count_witness:
  "lastFaceCount ((voice_init [])\<lparr>speechSupported := True, lastFaceCount := 1\<rparr>) = 1 \<and>
   speechSupported ((voice_init [])\<lparr>speechSupported := True, lastFaceCount := 1\<rparr>) \<and>
   narration [] True ((voice_init [])\<lparr>speechSupported := True, lastFaceCount := 1\<rparr>) =
     Some noFacesMessage \<and>
   lastFaceCount
     (announceEffect [] True ((voice_init [])\<lparr>speechSupported := True, lastFaceCount := 1\<rparr>)) = 0 \<and>
   map utterText (speakCalls (synth
     (announceEffect [] True ((voice_init [])\<lparr>speechSupported := True, lastFaceCount := 1\<rparr>)))) =
     [noFacesMessage]"
proof -
  have "lastFaceCount ((voice_init [])\<lparr>speechSupported := True, lastFaceCount := 1\<rparr>) = 1"
    and "speechSupported ((voice_init [])\<lparr>speechSupported := True, lastFaceCount := 1\<rparr>)"
    and "speakCalls (synth ((voice_init [])\<lparr>speechSupported := True, lastFaceCount := 1\<rparr>)) = []"
    by (simp_all add: voice_init_def)
  then show ?thesis
    using empty_batch_resets_count
      [of "(voice_init [])\<lparr>speechSupported := True, lastFaceCount := 1\<rparr>" "[]"]
    by (simp add: newUtterance_def)
qed

section \<open>Properties of the session timer\<close>

lemmas cam_defs =
  loadModel_done_def startWebcam_done_def stopWebcam_def loopEffect_def
  cancelStoredFrame_def cancelAnimationFrame_def requestAnimationFrame_def
  detectFaces_settled_def webcam_init_def newCanvas_def

text \<open>
  C9, as the code has it. \<^verbatim>\<open>sessionTime\<close> grows by one each time the one-second
  interval of \<^verbatim>\<open>App\<close> fires, whatever else happens in between: stopping the webcam
  does not stop it, and neither stopping nor starting the webcam again resets it.
\<close>

theorem sessionTime_counts_every_interval:
  "sessionTime (app (session_run evs x)) =
     sessionTime (app x) + length (filter (\<lambda>e. e = IntervalFired) evs)"
proof (induction evs arbitrary: x)
  case Nil
  show ?case by simp
next
  case (Cons e evs)
  have "sessionTime (app (session_step e x)) =
          sessionTime (app x) + (if e = IntervalFired then 1 else 0)"
    by (cases e) (simp_all add: intervalTick_def handleVoiceToggle_def handleFaceDetected_def Let_def)
  with Cons.IH [of "session_step e x"] show ?case by simp
qed

text \<open>
  C9 as stated fails: the interval that fires after the webcam was stopped still
  increments \<^verbatim>\<open>sessionTime\<close>, from 1 to 2, and starting the webcam again leaves it at 2.
\<close>

theorem sessionTime_ticks_while_stopped:
  "isStreaming (cam (session_run
     [Cam (ModelSettled True), Cam (CameraSettled True), IntervalFired] session_init)) \<and>
   sessionTime (app (session_run
     [Cam (ModelSettled True), Cam (CameraSettled True), IntervalFired] session_init)) = 1 \<and>
   \<not> isStreaming (cam (session_run
     [Cam (ModelSettled True), Cam (CameraSettled True), IntervalFired, Cam StopClicked_cam]
     session_init)) \<and>
   sessionTime (app (session_run
     [Cam (ModelSettled True), Cam (CameraSettled True), IntervalFired, Cam StopClicked_cam,
      IntervalFired] session_init)) = 2 \<and>
   isStreaming (cam (session_run
     [Cam (ModelSettled True), Cam (CameraSettled True), IntervalFired, Cam StopClicked_cam,
      IntervalFired, Cam (CameraSettled True)] session_init)) \<and>
   sessionTime (app (session_run
     [Cam (ModelSettled True), Cam (CameraSettled True), IntervalFired, Cam StopClicked_cam,
      IntervalFired, Cam (CameraSettled True)] session_init)) = 2"
  by (simp add: session_init_def app_init_def cam_defs intervalTick_def)

section \<open>Properties of the overlay renderer\<close>







lemma hues_append: "hues (xs @ ys) = hues xs @ hues ys"
  by (simp add: hues_def)






section \<open>Properties of the frame scheduler\<close>

lemma detectFaces_calls:
  "estimateCalls (detectFaces tick s) = estimateCalls s \<and>
     lastDetectionTime (detectFaces tick s) = lastDetectionTime s \<or>
   now tick - lastDetectionTime s \<ge> 67 \<and>
     estimateCalls (detectFaces tick s) = now tick # estimateCalls s \<and>
     lastDetectionTime (detectFaces tick s) = now tick"
  by (simp add: detectFaces_def requestAnimationFrame_def estimateFaces_call_def
      fitCanvas_def updateFps_def Let_def)

lemma cam_step_calls:
  "estimateCalls (cam_step e s) = estimateCalls s \<and>
     lastDetectionTime (cam_step e s) = lastDetectionTime s \<or>
   (\<exists>t. t - lastDetectionTime s \<ge> 67 \<and>
     estimateCalls (cam_step e s) = t # estimateCalls s \<and>
     lastDetectionTime (cam_step e s) = t)"
proof (cases e)
  case (AnimationFrame handle tick)
  show ?thesis
    using detectFaces_calls [of tick "s\<lparr>scheduledFrames := removeAll handle (scheduledFrames s)\<rparr>"]
    by (auto simp: AnimationFrame)
qed (simp_all add: cam_defs Let_def split: option.splits sum.splits)

lemma throttle_inv_step: "throttle_inv s \<Longrightarrow> throttle_inv (cam_step e s)"
  using cam_step_calls [of e s] by (fastforce simp: throttle_inv_def)

lemma throttle_inv_run: "throttle_inv s \<Longrightarrow> throttle_inv (cam_run evs s)"
  by (induction evs arbitrary: s) (simp_all add: throttle_inv_step)

lemmas cam_eval =
  loadModel_done_def startWebcam_done_def stopWebcam_def loopEffect_def
  cancelStoredFrame_def cancelAnimationFrame_def requestAnimationFrame_def
  detectFaces_settled_def webcam_init_def newCanvas_def streaming_def readyTick_def
  detectFaces_def estimateFaces_call_def updateFps_def fitCanvas_def resizeCanvas_def
  draw_def clearRect_all_def

lemma streaming_eq:
  "streaming =
     \<lparr>model = True, isLoading = False, error = None, isStreaming = True,
      isRecording = False, faceCount = 0, fps = 0, animationFrameRef = Some 1,
      fpsCounterRef = 0, lastTimeRef = 0, lastDetectionTime = 0, canvas = newCanvas,
      srcObject = True, scheduledFrames = [1], nextFrameHandle = 2, inFlight = 0,
      estimateCalls = [], onFaceDetectedCalls = []\<rparr>"
  by (simp add: cam_eval)

text \<open>
  C1. Whatever happens to the component (frame callbacks at any clock readings, with any
  closure, detector calls settling, stop, start, effect runs), any two detector calls it
  makes are at least 67 ms apart. A frame callback that comes less than 67 ms after the
  last accepted detection calls no detector and changes no timestamp; where it passes the
  guards of line 84 it only schedules the next frame.
\<close>

theorem detector_calls_67ms_apart:
  "(estimateCalls s = [] \<longrightarrow>
      (\<forall>i j. i < j \<and> j < length (estimateCalls (cam_run evs s)) \<longrightarrow>
         estimateCalls (cam_run evs s) ! i - estimateCalls (cam_run evs s) ! j \<ge> 67)) \<and>
   (now tick - lastDetectionTime s < 67 \<longrightarrow>
      estimateCalls (detectFaces tick s) = estimateCalls s \<and>
      inFlight (detectFaces tick s) = inFlight s \<and>
      lastDetectionTime (detectFaces tick s) = lastDetectionTime s \<and>
      (closureModel tick \<and> closureStreaming tick \<and> videoMounted tick \<and> canvasMounted tick \<longrightarrow>
         detectFaces tick s = requestAnimationFrame s))"
proof (intro conjI impI)
  assume "estimateCalls s = []"
  then have "throttle_inv s" by (simp add: throttle_inv_def)
  then have "throttle_inv (cam_run evs s)" by (rule throttle_inv_run)
  then show "\<forall>i j. i < j \<and> j < length (estimateCalls (cam_run evs s)) \<longrightarrow>
         estimateCalls (cam_run evs s) ! i - estimateCalls (cam_run evs s) ! j \<ge> 67"
    by (simp add: throttle_inv_def sorted_wrt_iff_nth_less)
next
  assume "now tick - lastDetectionTime s < 67"
  then show "estimateCalls (detectFaces tick s) = estimateCalls s"
    "inFlight (detectFaces tick s) = inFlight s"
    "lastDetectionTime (detectFaces tick s) = lastDetectionTime s"
    by (simp_all add: detectFaces_def requestAnimationFrame_def)
next
  assume "now tick - lastDetectionTime s < 67"
    "closureModel tick \<and> closureStreaming tick \<and> videoMounted tick \<and> canvasMounted tick"
  then show "detectFaces tick s = requestAnimationFrame s"
    by (simp add: detectFaces_def)
qed

theorem detector_calls_67ms_apart_witness:
  "estimateCalls streaming = [] \<and>
   estimateCalls (cam_run
     [AnimationFrame 1 (readyTick 100), DetectorSettled (Inr []),
      AnimationFrame 2 (readyTick 120), AnimationFrame 3 (readyTick 170)] streaming) = [170, 100] \<and>
   now (readyTick 50) - lastDetectionTime streaming < 67 \<and>
   detectFaces (readyTick 50) streaming = requestAnimationFrame streaming"
proof -
  have h: "estimateCalls streaming = []" "now (readyTick 50) - lastDetectionTime streaming < 67"
    "closureModel (readyTick 50) \<and> closureStreaming (readyTick 50) \<and>
     videoMounted (readyTick 50) \<and> canvasMounted (readyTick 50)"
    by (simp_all add: streaming_eq readyTick_def)
  have run: "estimateCalls (cam_run
     [AnimationFrame 1 (readyTick 100), DetectorSettled (Inr []),
      AnimationFrame 2 (readyTick 120), AnimationFrame 3 (readyTick 170)] streaming) = [170, 100]"
    by (simp add: streaming_eq cam_eval overlay_live_def)
  from h run show ?thesis
    using detector_calls_67ms_apart [of streaming "[AnimationFrame 1 (readyTick 100), DetectorSettled (Inr []),
      AnimationFrame 2 (readyTick 120), AnimationFrame 3 (readyTick 170)]" "readyTick 50"]
    by blast
qed

lemma stopWebcam_frame:
  "inFlight (stopWebcam s) = inFlight s \<and>
   onFaceDetectedCalls (stopWebcam s) = onFaceDetectedCalls s \<and>
   canvas (stopWebcam s) = canvas s \<and>
   nextFrameHandle (stopWebcam s) = nextFrameHandle s"
  by (simp add: stopWebcam_def cancelStoredFrame_def cancelAnimationFrame_def
      split: option.splits)

lemma loopEffect_frame:
  "inFlight (loopEffect s) = inFlight s \<and>
   onFaceDetectedCalls (loopEffect s) = onFaceDetectedCalls s \<and>
   canvas (loopEffect s) = canvas s"
  by (simp add: loopEffect_def cancelStoredFrame_def cancelAnimationFrame_def
      requestAnimationFrame_def Let_def split: option.splits)

lemma stopWebcam_cancels:
  "animationFrameRef s = Some handle \<Longrightarrow> handle \<notin> set (scheduledFrames (stopWebcam s))"
  by (simp add: stopWebcam_def cancelStoredFrame_def cancelAnimationFrame_def)

lemma stopWebcam_isStreaming: "srcObject s \<Longrightarrow> \<not> isStreaming (stopWebcam s)"
  by (simp add: stopWebcam_def cancelStoredFrame_def cancelAnimationFrame_def
      split: option.splits)

lemma settled_fulfilled:
  "onFaceDetectedCalls (detectFaces_settled (Inr predictions) s) =
     map toFace predictions # onFaceDetectedCalls s \<and>
   contents (canvas (detectFaces_settled (Inr predictions) s)) =
     overlay_live (map toFace predictions) \<and>
   faceCount (detectFaces_settled (Inr predictions) s) = length predictions \<and>
   nextFrameHandle s \<in> set (scheduledFrames (detectFaces_settled (Inr predictions) s))"
  by (simp add: detectFaces_settled_def requestAnimationFrame_def Let_def draw_def
      clearRect_all_def)

lemma settled_rejected:
  "onFaceDetectedCalls (detectFaces_settled (Inl err) s) = onFaceDetectedCalls s \<and>
   canvas (detectFaces_settled (Inl err) s) = canvas s"
  by (simp add: detectFaces_settled_def requestAnimationFrame_def)

text \<open>
  C2, as the code has it. \<^verbatim>\<open>stopWebcam\<close> detaches the stream and cancels the stored
  animation frame; it delivers nothing and draws nothing. The rest of \<^verbatim>\<open>detectFaces\<close>
  checks no liveness flag: when a detector call that was in flight at the stop settles
  with predictions, it still passes the batch to \<^verbatim>\<open>onFaceDetected\<close>, sets
  \<^verbatim>\<open>faceCount\<close>, clears and redraws the overlay and schedules another frame, also
  when the effect of lines 199-213 has run in between. A call that settles with a
  rejection delivers nothing and leaves the canvas as it was.
\<close>

theorem settled_detection_delivers_after_stop:
  "inFlight s > 0 \<Longrightarrow>
     inFlight (cam_step StopClicked_cam s) = inFlight s \<and>
     onFaceDetectedCalls (cam_step StopClicked_cam s) = onFaceDetectedCalls s \<and>
     canvas (cam_step StopClicked_cam s) = canvas s \<and>
     (srcObject s \<longrightarrow> \<not> isStreaming (cam_step StopClicked_cam s)) \<and>
     (animationFrameRef s = Some handle \<longrightarrow>
        handle \<notin> set (scheduledFrames (cam_step StopClicked_cam s))) \<and>
     onFaceDetectedCalls
       (cam_step (DetectorSettled (Inr predictions)) (cam_step StopClicked_cam s)) =
       map toFace predictions # onFaceDetectedCalls s \<and>
     contents (canvas
       (cam_step (DetectorSettled (Inr predictions)) (cam_step StopClicked_cam s))) =
       overlay_live (map toFace predictions) \<and>
     faceCount (cam_step (DetectorSettled (Inr predictions)) (cam_step StopClicked_cam s)) =
       length predictions \<and>
     nextFrameHandle s \<in> set (scheduledFrames
       (cam_step (DetectorSettled (Inr predictions)) (cam_step StopClicked_cam s))) \<and>
     onFaceDetectedCalls
       (cam_step (DetectorSettled (Inr predictions))
          (cam_step EffectRan (cam_step StopClicked_cam s))) =
       map toFace predictions # onFaceDetectedCalls s \<and>
     onFaceDetectedCalls
       (cam_step (DetectorSettled (Inl err)) (cam_step StopClicked_cam s)) =
       onFaceDetectedCalls s \<and>
     canvas (cam_step (DetectorSettled (Inl err)) (cam_step StopClicked_cam s)) = canvas s"
proof -
  assume flying: "inFlight s > 0"
  define stopped where "stopped = cam_step StopClicked_cam s"
  define waiting where "waiting = stopped\<lparr>inFlight := inFlight stopped - 1\<rparr>"
  have stopped: "stopped = stopWebcam s" by (simp add: stopped_def)
  have kept: "inFlight stopped = inFlight s" "onFaceDetectedCalls stopped = onFaceDetectedCalls s"
    "canvas stopped = canvas s" "nextFrameHandle stopped = nextFrameHandle s"
    using stopWebcam_frame [of s] by (simp_all add: stopped)
  have waiting: "onFaceDetectedCalls waiting = onFaceDetectedCalls s" "canvas waiting = canvas s"
    "nextFrameHandle waiting = nextFrameHandle s"
    by (simp_all add: waiting_def kept)
  have settle: "cam_step (DetectorSettled result) stopped = detectFaces_settled result waiting"
    for result
    using flying by (simp add: kept waiting_def)
  have after_effect: "inFlight (cam_step EffectRan stopped) = inFlight s"
    "onFaceDetectedCalls (cam_step EffectRan stopped) = onFaceDetectedCalls s"
    using loopEffect_frame [of stopped] by (simp_all add: kept)
  have effect_settle:
    "onFaceDetectedCalls (cam_step (DetectorSettled (Inr predictions)) (cam_step EffectRan stopped)) =
       map toFace predictions # onFaceDetectedCalls s"
    using flying after_effect
      settled_fulfilled [of predictions "(cam_step EffectRan stopped)\<lparr>inFlight := inFlight s - 1\<rparr>"]
    by (simp del: cam_step.simps(5) add: cam_step.simps(7))
  show ?thesis
    unfolding stopped_def [symmetric]
    using kept stopWebcam_isStreaming [of s] stopWebcam_cancels [of s handle]
      settled_fulfilled [of predictions waiting] settled_rejected [of err waiting]
      effect_settle
    by (simp add: settle waiting del: cam_step.simps) (simp add: stopped)
qed

theorem settled_detection_delivers_after_stop_witness:
  "inFlight (cam_step (AnimationFrame 1 (readyTick 100)) streaming) > 0 \<and>
   onFaceDetectedCalls (cam_step (DetectorSettled (Inr [scenarioPrediction]))
      (cam_step StopClicked_cam (cam_step (AnimationFrame 1 (readyTick 100)) streaming))) =
     [[scenarioFace]] \<and>
   contents (canvas (cam_step (DetectorSettled (Inr [scenarioPrediction]))
      (cam_step StopClicked_cam (cam_step (AnimationFrame 1 (readyTick 100)) streaming)))) =
     overlay_live [scenarioFace]"
proof -
  have h: "inFlight (cam_step (AnimationFrame 1 (readyTick 100)) streaming) > 0"
    and c: "onFaceDetectedCalls (cam_step (AnimationFrame 1 (readyTick 100)) streaming) = []"
    by (simp_all add: streaming_eq cam_eval)
  have f: "map toFace [scenarioPrediction] = [scenarioFace]"
    by (simp add: toFace_def scenarioPrediction_def scenarioFace_def)
  from settled_detection_delivers_after_stop [OF h, of _ "[scenarioPrediction]"] c f h show ?thesis
    by (simp del: cam_step.simps)
qed

text \<open>
  C2 as stated fails: a detection accepted at 100 ms is in flight when the webcam is
  stopped; the stop leaves no frame scheduled, no batch delivered and an empty canvas, and
  when the detector then settles with the scenario's face, the batch is delivered and
  its label is drawn.
\<close>

theorem stopped_component_still_delivers:
  "inFlight (cam_step (AnimationFrame 1 (readyTick 100)) streaming) = 1 \<and>
   \<not> isStreaming (cam_step StopClicked_cam (cam_step (AnimationFrame 1 (readyTick 100)) streaming)) \<and>
   scheduledFrames (cam_step StopClicked_cam (cam_step (AnimationFrame 1 (readyTick 100)) streaming)) = [] \<and>
   onFaceDetectedCalls
     (cam_step StopClicked_cam (cam_step (AnimationFrame 1 (readyTick 100)) streaming)) = [] \<and>
   contents (canvas
     (cam_step StopClicked_cam (cam_step (AnimationFrame 1 (readyTick 100)) streaming))) = [] \<and>
   onFaceDetectedCalls (cam_step (DetectorSettled (Inr [scenarioPrediction]))
      (cam_step StopClicked_cam (cam_step (AnimationFrame 1 (readyTick 100)) streaming))) =
     [[scenarioFace]] \<and>
   labelDraws (contents (canvas (cam_step (DetectorSettled (Inr [scenarioPrediction]))
      (cam_step StopClicked_cam (cam_step (AnimationFrame 1 (readyTick 100)) streaming))))) =
     [FillText (''Face 1 '' @ bullet @ '' 95%'') 18 110]"
  by (simp add: streaming_eq cam_eval overlay_live_def toFace_def scenarioPrediction_def
      scenarioFace_def labelDraws_def drawFace_live_def faceHue_def Math_round_def
      int_toString_def nat_toString.simps digit_char_def)

lemma detectFaces_canvas:
  "\<not> context2d tick \<or> videoWidth tick = 0 \<or> readyState tick \<noteq> 4 \<or>
   now tick - lastDetectionTime s < 67 \<or>
   canvasWidth (canvas s) = videoWidth tick \<and> canvasHeight (canvas s) = videoHeight tick
   \<Longrightarrow> canvas (detectFaces tick s) = canvas s"
  by (auto simp: detectFaces_def requestAnimationFrame_def estimateFaces_call_def
      fitCanvas_def updateFps_def Let_def)

lemma detectFaces_rejected_time:
  "\<not> context2d tick \<or> videoWidth tick = 0 \<or> readyState tick \<noteq> 4 \<or>
   now tick - lastDetectionTime s < 67
   \<Longrightarrow> lastDetectionTime (detectFaces tick s) = lastDetectionTime s"
  by (auto simp: detectFaces_def requestAnimationFrame_def)

lemma rejected_step:
  "rejectedTick s e \<Longrightarrow>
     canvas (cam_step e s) = canvas s \<and> lastDetectionTime (cam_step e s) = lastDetectionTime s"
proof (cases e)
  case (AnimationFrame handle tick)
  assume "rejectedTick s e"
  then have r: "\<not> context2d tick \<or> videoWidth tick = 0 \<or> readyState tick \<noteq> 4 \<or>
      now tick - lastDetectionTime (s\<lparr>scheduledFrames := removeAll handle (scheduledFrames s)\<rparr>) < 67"
    by (simp add: rejectedTick_def AnimationFrame)
  from r have "canvas (detectFaces tick (s\<lparr>scheduledFrames := removeAll handle (scheduledFrames s)\<rparr>)) = canvas s"
    using detectFaces_canvas [of tick "s\<lparr>scheduledFrames := removeAll handle (scheduledFrames s)\<rparr>"]
    by auto
  moreover from r have "lastDetectionTime (detectFaces tick (s\<lparr>scheduledFrames := removeAll handle (scheduledFrames s)\<rparr>)) = lastDetectionTime s"
    using detectFaces_rejected_time [of tick "s\<lparr>scheduledFrames := removeAll handle (scheduledFrames s)\<rparr>"]
    by auto
  ultimately show ?thesis by (simp add: AnimationFrame)
qed (simp_all add: rejectedTick_def)

lemma rejected_run:
  "list_all (rejectedTick s) evs \<Longrightarrow> canvas (cam_run evs s) = canvas s"
proof (induction evs arbitrary: s)
  case Nil
  show ?case by simp
next
  case (Cons e evs)
  then have r: "rejectedTick s e" and rs: "list_all (rejectedTick s) evs" by simp_all
  have same: "rejectedTick (cam_step e s) = rejectedTick s"
    using rejected_step [OF r] by (auto simp: rejectedTick_def fun_eq_iff split: CamEvent.splits)
  from rs same have "canvas (cam_run evs (cam_step e s)) = canvas (cam_step e s)"
    using Cons.IH [of "cam_step e s"] by simp
  with rejected_step [OF r] show ?case by simp
qed

lemma afterFirstCycle_eq:
  "lastDetectionTime afterFirstCycle = 100 \<and>
   canvas afterFirstCycle =
     \<lparr>canvasWidth = 640, canvasHeight = 480, contents = overlay_live [scenarioFace]\<rparr>"
  by (simp add: afterFirstCycle_def streaming_eq cam_eval toFace_def scenarioPrediction_def
      scenarioFace_def Let_def)

lemma detectFaces_resizes:
  "closureModel tick \<and> videoMounted tick \<and> canvasMounted tick \<and> closureStreaming tick \<and>
   context2d tick \<and> videoWidth tick \<noteq> 0 \<and> readyState tick = 4 \<and>
   now tick - lastDetectionTime s \<ge> 67 \<and>
   (canvasWidth (canvas s) \<noteq> videoWidth tick \<or> canvasHeight (canvas s) \<noteq> videoHeight tick)
   \<Longrightarrow> canvas (detectFaces tick s) =
         \<lparr>canvasWidth = videoWidth tick, canvasHeight = videoHeight tick, contents = []\<rparr>"
  by (auto simp: detectFaces_def estimateFaces_call_def fitCanvas_def updateFps_def
      resizeCanvas_def Let_def)

lemma afterFirstCycle_state:
  "afterFirstCycle =
     \<lparr>model = True, isLoading = False, error = None, isStreaming = True,
      isRecording = False, faceCount = 1, fps = 0, animationFrameRef = Some 2,
      fpsCounterRef = 0, lastTimeRef = 100, lastDetectionTime = 100,
      canvas = \<lparr>canvasWidth = 640, canvasHeight = 480, contents = overlay_live [scenarioFace]\<rparr>,
      srcObject = True, scheduledFrames = [2], nextFrameHandle = 3, inFlight = 0,
      estimateCalls = [100], onFaceDetectedCalls = [[scenarioFace]]\<rparr>"
  by (simp add: afterFirstCycle_def streaming_eq cam_eval toFace_def scenarioPrediction_def
      scenarioFace_def Let_def)

text \<open>
  C10, as the code has it. A frame callback that finds no 2D context or no ready frame, or
  that the 67 ms gate turns away, leaves the overlay canvas (its size and its contents) as
  it was, and so does any sequence of such callbacks. The boxes and labels of the last
  completed detection stay until a detection completes with predictions, which redraws
  the canvas, or until an accepted callback finds the size of the video different from the
  size of the canvas: lines 114-117 then resize the canvas, which clears it before the
  detector is awaited. A detection that settles with a rejection draws nothing.
\<close>

theorem rejected_tick_leaves_overlay:
  "(\<not> context2d tick \<or> videoWidth tick = 0 \<or> readyState tick \<noteq> 4 \<or>
      now tick - lastDetectionTime s < 67 \<longrightarrow>
        canvas (detectFaces tick s) = canvas s \<and>
        canvas (cam_step (AnimationFrame handle tick) s) = canvas s) \<and>
   (list_all (rejectedTick s) evs \<longrightarrow> canvas (cam_run evs s) = canvas s) \<and>
   (canvasWidth (canvas s) = videoWidth tick \<and> canvasHeight (canvas s) = videoHeight tick \<longrightarrow>
      canvas (detectFaces tick s) = canvas s) \<and>
   contents (canvas (detectFaces_settled (Inr predictions) s)) =
     overlay_live (map toFace predictions) \<and>
   (closureModel tick \<and> videoMounted tick \<and> canvasMounted tick \<and> closureStreaming tick \<and>
    context2d tick \<and> videoWidth tick \<noteq> 0 \<and> readyState tick = 4 \<and>
    now tick - lastDetectionTime s \<ge> 67 \<and>
    (canvasWidth (canvas s) \<noteq> videoWidth tick \<or> canvasHeight (canvas s) \<noteq> videoHeight tick) \<longrightarrow>
      canvas (detectFaces tick s) =
        \<lparr>canvasWidth = videoWidth tick, canvasHeight = videoHeight tick, contents = []\<rparr>) \<and>
   canvas (detectFaces_settled (Inl err) s) = canvas s"
proof (intro conjI impI)
  assume r: "\<not> context2d tick \<or> videoWidth tick = 0 \<or> readyState tick \<noteq> 4 \<or>
      now tick - lastDetectionTime s < 67"
  then show "canvas (detectFaces tick s) = canvas s"
    using detectFaces_canvas [of tick s] by blast
  from r have "rejectedTick s (AnimationFrame handle tick)"
    by (simp add: rejectedTick_def)
  then show "canvas (cam_step (AnimationFrame handle tick) s) = canvas s"
    using rejected_step by blast
next
  assume "list_all (rejectedTick s) evs"
  then show "canvas (cam_run evs s) = canvas s" by (rule rejected_run)
next
  assume "canvasWidth (canvas s) = videoWidth tick \<and> canvasHeight (canvas s) = videoHeight tick"
  then show "canvas (detectFaces tick s) = canvas s"
    using detectFaces_canvas [of tick s] by blast
next
  show "contents (canvas (detectFaces_settled (Inr predictions) s)) =
     overlay_live (map toFace predictions)"
    by (simp add: detectFaces_settled_def requestAnimationFrame_def Let_def draw_def clearRect_all_def)
next
  assume "closureModel tick \<and> videoMounted tick \<and> canvasMounted tick \<and> closureStreaming tick \<and>
    context2d tick \<and> videoWidth tick \<noteq> 0 \<and> readyState tick = 4 \<and>
    now tick - lastDetectionTime s \<ge> 67 \<and>
    (canvasWidth (canvas s) \<noteq> videoWidth tick \<or> canvasHeight (canvas s) \<noteq> videoHeight tick)"
  then show "canvas (detectFaces tick s) =
        \<lparr>canvasWidth = videoWidth tick, canvasHeight = videoHeight tick, contents = []\<rparr>"
    by (rule detectFaces_resizes)
next
  show "canvas (detectFaces_settled (Inl err) s) = canvas s"
    by (simp add: detectFaces_settled_def requestAnimationFrame_def)
qed

theorem rejected_tick_leaves_overlay_witness:
  "now (readyTick 120) - lastDetectionTime afterFirstCycle < 67 \<and>
   contents (canvas afterFirstCycle) = overlay_live [scenarioFace] \<and>
   canvas (cam_step (AnimationFrame 2 (readyTick 120)) afterFirstCycle) = canvas afterFirstCycle \<and>
   list_all (rejectedTick afterFirstCycle)
     [AnimationFrame 2 (readyTick 120), AnimationFrame 3 (readyTick 140)] \<and>
   canvas (cam_run [AnimationFrame 2 (readyTick 120), AnimationFrame 3 (readyTick 140)]
     afterFirstCycle) = canvas afterFirstCycle \<and>
   canvasWidth (canvas afterFirstCycle) = videoWidth (readyTick 200) \<and>
   canvasHeight (canvas afterFirstCycle) = videoHeight (readyTick 200) \<and>
   canvas (detectFaces (readyTick 200) afterFirstCycle) = canvas afterFirstCycle"
proof -
  have h1: "now (readyTick 120) - lastDetectionTime afterFirstCycle < 67"
    and h2: "list_all (rejectedTick afterFirstCycle)
      [AnimationFrame 2 (readyTick 120), AnimationFrame 3 (readyTick 140)]"
    and h3: "canvasWidth (canvas afterFirstCycle) = videoWidth (readyTick 200) \<and>
      canvasHeight (canvas afterFirstCycle) = videoHeight (readyTick 200)"
    and c: "contents (canvas afterFirstCycle) = overlay_live [scenarioFace]"
    by (simp_all add: afterFirstCycle_eq rejectedTick_def readyTick_def)
  from h1 h2 h3 c show ?thesis
    using
      rejected_tick_leaves_overlay
        [of "readyTick 120" afterFirstCycle 2
           "[AnimationFrame 2 (readyTick 120), AnimationFrame 3 (readyTick 140)]"]
      rejected_tick_leaves_overlay
        [of "readyTick 200" afterFirstCycle 2 "[]"]
    by blast
qed

text \<open>
  C10 as stated fails in its second half. After the first cycle the canvas, 640 by 480,
  shows the label of the scenario's face. The callback at 200 ms is accepted and finds a
  video of 1280 by 720: it resizes the canvas, which is blank from then on although no
  detection has completed, and it stays blank when the detector settles with a rejection.
\<close>

theorem accepted_tick_resize_clears_overlay:
  "labelDraws (contents (canvas afterFirstCycle)) =
     [FillText (''Face 1 '' @ bullet @ '' 95%'') 18 110] \<and>
   inFlight (cam_step
     (AnimationFrame 2 ((readyTick 200)\<lparr>videoWidth := 1280, videoHeight := 720\<rparr>))
     afterFirstCycle) = 1 \<and>
   onFaceDetectedCalls (cam_step
     (AnimationFrame 2 ((readyTick 200)\<lparr>videoWidth := 1280, videoHeight := 720\<rparr>))
     afterFirstCycle) = onFaceDetectedCalls afterFirstCycle \<and>
   contents (canvas (cam_step
     (AnimationFrame 2 ((readyTick 200)\<lparr>videoWidth := 1280, videoHeight := 720\<rparr>))
     afterFirstCycle)) = [] \<and>
   contents (canvas (cam_step (DetectorSettled (Inl ''detector failed''))
     (cam_step
       (AnimationFrame 2 ((readyTick 200)\<lparr>videoWidth := 1280, videoHeight := 720\<rparr>))
       afterFirstCycle))) = []"
  by (simp add: afterFirstCycle_state cam_eval overlay_live_def labelDraws_def
      drawFace_live_def faceHue_def scenarioFace_def Math_round_def int_toString_def
      nat_toString.simps digit_char_def)

end
